theory Spec2Isabelle
  imports Main "HOL-Library.AList"
begin

section \<open>JavaScript values, errors and objects\<close>

text \<open>
  The handlers of the repository exchange plain JavaScript values: strings, numbers,
  booleans, \<open>undefined\<close>, arrays and object literals. An object literal is an association
  list in insertion order. \<open>JFunction\<close> stands for a built-in function value such as
  \<open>Array.prototype.map\<close>, which is all the code ever reads without calling.
\<close>

datatype json =
    JUndefined
  | JNull
  | JBool bool
  | JNum int
  | JStr string
  | JArr "json list"
  | JObj "(string \<times> json) list"
  | JFunction string

type_synonym js_object = "(string \<times> json) list"

text \<open>A thrown value: \<open>new Error(message)\<close> has the name \<open>Error\<close>.\<close>

datatype js_error = JsError (err_name: string) (err_message: string)

definition new_Error :: "string \<Rightarrow> js_error" where
  "new_Error m = JsError ''Error'' m"

text \<open>\<open>`${e}`\<close> of an error is its name, a colon and its message.\<close>

definition error_to_string :: "js_error \<Rightarrow> string" where
  "error_to_string e = err_name e @ '': '' @ err_message e"

definition digit_char :: "nat \<Rightarrow> char" where
  "digit_char n = char_of (48 + n)"

text \<open>Decimal notation of a number, for template literals.\<close>

fun show_nat :: "nat \<Rightarrow> string" where
  "show_nat n = (if 10 \<le> n then show_nat (n div 10) else []) @ [digit_char (n mod 10)]"

declare show_nat.simps [simp del]

definition show_int :: "int \<Rightarrow> string" where
  "show_int i = (if 0 \<le> i then show_nat (nat i) else CHR ''-'' # show_nat (nat (- i)))"

fun join_with :: "string \<Rightarrow> string list \<Rightarrow> string" where
  "join_with sep [] = []"
| "join_with sep [x] = x"
| "join_with sep (x # y # ys) = x @ sep @ join_with sep (y # ys)"

text \<open>String conversion as a template literal performs it.\<close>

fun js_to_string :: "json \<Rightarrow> string" where
  "js_to_string JUndefined = ''undefined''"
| "js_to_string JNull = ''null''"
| "js_to_string (JBool b) = (if b then ''true'' else ''false'')"
| "js_to_string (JNum n) = show_int n"
| "js_to_string (JStr s) = s"
| "js_to_string (JArr xs) =
     join_with '','' (map (\<lambda>x. if x = JUndefined \<or> x = JNull then [] else js_to_string x) xs)"
| "js_to_string (JObj kvs) = ''[object Object]''"
| "js_to_string (JFunction f) = ''function '' @ f @ ''() { [native code] }''"

fun truthy :: "json \<Rightarrow> bool" where
  "truthy JUndefined = False"
| "truthy JNull = False"
| "truthy (JBool b) = b"
| "truthy (JNum n) = (n \<noteq> 0)"
| "truthy (JStr s) = (s \<noteq> [])"
| "truthy (JArr xs) = True"
| "truthy (JObj kvs) = True"
| "truthy (JFunction f) = True"

text \<open>Property read \<open>o[k]\<close> on an object literal: \<open>undefined\<close> when the key is absent.\<close>

definition obj_get :: "js_object \<Rightarrow> string \<Rightarrow> json" where
  "obj_get obj k = (case map_of obj k of None \<Rightarrow> JUndefined | Some v \<Rightarrow> v)"

text \<open>
  Property read \<open>v.k\<close> on a value that is neither \<open>undefined\<close> nor \<open>null\<close>. An array
  answers \<open>map\<close> with the built-in function.
\<close>

fun get_prop :: "json \<Rightarrow> string \<Rightarrow> json" where
  "get_prop (JObj kvs) k = obj_get kvs k"
| "get_prop (JArr xs) k =
     (if k = ''map'' then JFunction ''map''
      else if k = ''length'' then JNum (int (length xs)) else JUndefined)"
| "get_prop v k = JUndefined"

fun isArray :: "json \<Rightarrow> bool" where
  "isArray (JArr xs) = True"
| "isArray v = False"

text \<open>
  Object spread \<open>{...a, ...b}\<close>: the properties of \<open>b\<close> are written over those of
  \<open>a\<close> from left to right; an overwritten key keeps its place, a new key goes last.
\<close>

definition spread :: "js_object \<Rightarrow> js_object \<Rightarrow> js_object" where
  "spread a b = fold (\<lambda>(k, v) acc. AList.update k v acc) b a"

text \<open>
  Resolution of an identifier against the bindings in scope. An identifier that no
  enclosing scope declares raises a \<open>ReferenceError\<close> (the modules are ES modules, hence
  strict code).
\<close>

definition resolve :: "js_object \<Rightarrow> string \<Rightarrow> js_error + json" where
  "resolve scope x =
     (case map_of scope x of
        None \<Rightarrow> Inl (JsError ''ReferenceError'' (x @ '' is not defined''))
      | Some v \<Rightarrow> Inr v)"

section \<open>Requests, responses and the server state\<close>

datatype log_level = INFO | WARN | ERROR | CONSOLE_ERROR

datatype log_meta = NoMeta | ErrMeta js_error | ObjMeta js_object

datatype log_entry = LogEntry (entry_level: log_level) (entry_message: string) (entry_meta: log_meta)

datatype cookie_op =
    SetCookie string string js_object
  | ClearCookie string js_object

text \<open>\<open>next()\<close> and \<open>next(error)\<close> of the handler chain.\<close>

datatype next_call = NotCalled | Called "js_error option"

text \<open>
  What the code reads from the request: \<open>req.body\<close>, \<open>req.user?.role\<close>, \<open>req.ip\<close>,
  \<open>req.get('User-Agent')\<close>, \<open>req.path\<close>, \<open>req.method\<close> and \<open>req.cookies\<close>.
\<close>

record request =
  req_body :: json
  req_user_role :: "string option"
  req_ip :: string
  req_user_agent :: "string option"
  req_path :: string
  req_method :: string
  req_cookies :: js_object

text \<open>A row of the \<open>users\<close> relation.\<close>

record user_row =
  u_id :: nat
  u_name :: string
  u_email :: string
  u_password :: string
  u_role :: string
  u_createdAt :: nat
  u_updatedAt :: nat

text \<open>The options object handed to \<open>slidingWindow\<close>.\<close>

record sliding_window =
  sw_mode :: string
  sw_interval :: string
  sw_max :: "nat option"
  sw_name :: string

text \<open>The decision of the external admission service, as far as the gate reads it.\<close>

datatype conclusion = ALLOW | DENY | CHALLENGE | ERROR_CONCLUSION

datatype reason = RATE_LIMIT | BOT | SHIELD | EMAIL | SENSITIVE_INFO | FILTER | ERROR_REASON | UNKNOWN

record decision =
  dec_conclusion :: conclusion
  dec_reason :: reason

definition isDenied :: "decision \<Rightarrow> bool" where
  "isDenied d = (dec_conclusion d = DENY)"

definition isBot :: "reason \<Rightarrow> bool" where
  "isBot r = (r = BOT)"

definition isShield :: "reason \<Rightarrow> bool" where
  "isShield r = (r = SHIELD)"

definition isRateLimit :: "reason \<Rightarrow> bool" where
  "isRateLimit r = (r = RATE_LIMIT)"

text \<open>
  The state one request handler runs in: the \<open>users\<close> relation with its serial and
  clock, the log, the rules handed to the admission service, and the response under
  construction together with the call of \<open>next\<close>.
\<close>

record state =
  users :: "user_row list"
  next_id :: nat
  now :: nat
  logs :: "log_entry list"
  aj_rules :: "sliding_window list"
  res_status :: nat
  res_body :: "json option"
  res_cookies :: "cookie_op list"
  next_called :: next_call

record signup_data =
  sd_name :: string
  sd_email :: string
  sd_password :: string
  sd_role :: "string option"

record signin_data =
  si_email :: string
  si_password :: string

text \<open>
  The collaborators the source imports and that are not part of it, taken as
  parameters: the environment mode, \<open>bcrypt\<close>, \<open>jwttoken.sign\<close>, the two validation
  schemas (\<open>safeParse\<close> answers the error or the parsed data), a fault of the database
  connection, the admission service behind \<open>client.protect\<close>, and \<open>JSON.stringify\<close>.
\<close>

record env =
  NODE_ENV :: "string option"
  bcrypt_hash :: "string \<Rightarrow> nat \<Rightarrow> js_error + string"
  bcrypt_compare :: "string \<Rightarrow> json \<Rightarrow> js_error + bool"
  jwt_sign :: "json \<Rightarrow> js_error + string"
  signUpSchema :: "json \<Rightarrow> json + signup_data"
  signInSchema :: "json \<Rightarrow> json + signin_data"
  db_fault :: "js_error option"
  protect :: "sliding_window \<Rightarrow> request \<Rightarrow> js_error + decision"
  JSON_stringify :: "json \<Rightarrow> string"

subsection \<open>Logger and response primitives\<close>

definition logger :: "log_level \<Rightarrow> string \<Rightarrow> log_meta \<Rightarrow> state \<Rightarrow> state" where
  "logger lvl m meta s = s\<lparr>logs := logs s @ [LogEntry lvl m meta]\<rparr>"

definition res_set_status :: "nat \<Rightarrow> state \<Rightarrow> state" where
  "res_set_status code s = s\<lparr>res_status := code\<rparr>"

definition res_json :: "json \<Rightarrow> state \<Rightarrow> state" where
  "res_json b s = s\<lparr>res_body := Some b\<rparr>"

definition res_cookie :: "string \<Rightarrow> string \<Rightarrow> js_object \<Rightarrow> state \<Rightarrow> state" where
  "res_cookie name v opts s = s\<lparr>res_cookies := res_cookies s @ [SetCookie name v opts]\<rparr>"

definition res_clearCookie :: "string \<Rightarrow> js_object \<Rightarrow> state \<Rightarrow> state" where
  "res_clearCookie name opts s = s\<lparr>res_cookies := res_cookies s @ [ClearCookie name opts]\<rparr>"

definition call_next :: "js_error option \<Rightarrow> state \<Rightarrow> state" where
  "call_next e s = s\<lparr>next_called := Called e\<rparr>"

text \<open>A new request starts with an untouched response: status 200, nothing sent.\<close>

definition new_exchange :: "state \<Rightarrow> state" where
  "new_exchange s =
     s\<lparr>res_status := 200, res_body := None, res_cookies := [], next_called := NotCalled\<rparr>"

section \<open>utils/cookies.js\<close>

definition cookies_getOptions :: "env \<Rightarrow> js_object" where
  "cookies_getOptions env =
     [(''httpOnly'', JBool True),
      (''secure'', JBool (NODE_ENV env = Some ''production'')),
      (''sameSite'', JStr ''Lax''),
      (''maxAge'', JNum (15 * 60 * 1000))]"

definition cookies_set :: "env \<Rightarrow> string \<Rightarrow> string \<Rightarrow> js_object \<Rightarrow> state \<Rightarrow> state" where
  "cookies_set env name v options s =
     res_cookie name v (spread (cookies_getOptions env) options) s"

definition cookies_clear :: "env \<Rightarrow> string \<Rightarrow> js_object \<Rightarrow> state \<Rightarrow> state" where
  "cookies_clear env name options s =
     res_clearCookie name (spread (cookies_getOptions env) options) s"

definition cookies_get :: "request \<Rightarrow> string \<Rightarrow> json" where
  "cookies_get req name = obj_get (req_cookies req) name"

text \<open>The attributes of a cookie operation, and the operation a handler issued last.\<close>

fun cookie_attributes :: "cookie_op \<Rightarrow> js_object" where
  "cookie_attributes (SetCookie name v opts) = opts"
| "cookie_attributes (ClearCookie name opts) = opts"

section \<open>The users relation\<close>

text \<open>
  Modelled from the spec: the \<open>users\<close> relation of \<open>models/user.model.js\<close> and the
  database handle of \<open>config/database.js\<close>, which are not among the sources. The
  relation has the columns id, name, email (unique), password, role, createdAt and
  updatedAt; the id is assigned at creation. A query on a faulty connection rejects.
\<close>

definition row_object :: "user_row \<Rightarrow> js_object" where
  "row_object u =
     [(''id'', JNum (int (u_id u))), (''name'', JStr (u_name u)), (''email'', JStr (u_email u)),
      (''password'', JStr (u_password u)), (''role'', JStr (u_role u)),
      (''createdAt'', JNum (int (u_createdAt u))), (''updatedAt'', JNum (int (u_updatedAt u)))]"

text \<open>\<open>db.select().from(users).where(eq(users.email, email)).limit(n)\<close>\<close>

definition db_select_by_email :: "env \<Rightarrow> string \<Rightarrow> nat \<Rightarrow> state \<Rightarrow> js_error + js_object list" where
  "db_select_by_email env email n s =
     (case db_fault env of
        Some e \<Rightarrow> Inl e
      | None \<Rightarrow> Inr (take n (map row_object (filter (\<lambda>u. u_email u = email) (users s)))))"

text \<open>
  \<open>db.insert(users).values({name, email, password, role}).returning({id, name, email,
  role, created_at})\<close>
\<close>

definition db_insert_user ::
  "env \<Rightarrow> string \<Rightarrow> string \<Rightarrow> string \<Rightarrow> string \<Rightarrow> state \<Rightarrow> (js_error + js_object) \<times> state" where
  "db_insert_user env name email password role s =
     (case db_fault env of
        Some e \<Rightarrow> (Inl e, s)
      | None \<Rightarrow>
          if email \<in> set (map u_email (users s))
          then (Inl (new_Error ''duplicate key value violates unique constraint''), s)
          else
            let row = \<lparr>u_id = next_id s, u_name = name, u_email = email, u_password = password,
                       u_role = role, u_createdAt = now s, u_updatedAt = now s\<rparr>
            in (Inr [(''id'', JNum (int (u_id row))), (''name'', JStr (u_name row)),
                     (''email'', JStr (u_email row)), (''role'', JStr (u_role row)),
                     (''created_at'', JNum (int (u_createdAt row)))],
                s\<lparr>users := users s @ [row], next_id := Suc (next_id s)\<rparr>))"

section \<open>services/auth.service.js\<close>

definition hashPassword :: "env \<Rightarrow> string \<Rightarrow> state \<Rightarrow> (js_error + string) \<times> state" where
  "hashPassword env password s =
     (case bcrypt_hash env password 10 of
        Inr h \<Rightarrow> (Inr h, s)
      | Inl e \<Rightarrow>
          (Inl (new_Error ''Password hashing failed''),
           logger ERROR (''Password hashing error: '' @ error_to_string e) NoMeta s))"

definition comparePassword :: "env \<Rightarrow> string \<Rightarrow> json \<Rightarrow> state \<Rightarrow> (js_error + bool) \<times> state" where
  "comparePassword env password hashedPassword s =
     (case bcrypt_compare env password hashedPassword of
        Inr b \<Rightarrow> (Inr b, s)
      | Inl e \<Rightarrow>
          (Inl (new_Error ''Password comparison failed''),
           logger ERROR (''Password comparison error: '' @ error_to_string e) NoMeta s))"

text \<open>The \<open>try\<close> block of \<open>createUser\<close>; the parameter \<open>role\<close> defaults to \<open>user\<close>.\<close>

definition createUser_try :: "env \<Rightarrow> signup_data \<Rightarrow> state \<Rightarrow> (js_error + js_object) \<times> state" where
  "createUser_try env d s =
     (let role = (case sd_role d of None \<Rightarrow> ''user'' | Some r \<Rightarrow> r)
      in case db_select_by_email env (sd_email d) 1 s of
           Inl e \<Rightarrow> (Inl e, s)
         | Inr existingUser \<Rightarrow>
             if length existingUser > 0 then (Inl (new_Error ''user already exists''), s)
             else
               (case hashPassword env (sd_password d) s of
                  (Inl e, s1) \<Rightarrow> (Inl e, s1)
                | (Inr password_hash, s1) \<Rightarrow>
                    (case db_insert_user env (sd_name d) (sd_email d) password_hash role s1 of
                       (Inl e, s2) \<Rightarrow> (Inl e, s2)
                     | (Inr newUser, s2) \<Rightarrow>
                         (Inr newUser,
                          logger INFO
                            (''New user created with id: '' @ js_to_string (obj_get newUser ''id'')
                             @ '', email: '' @ js_to_string (obj_get newUser ''email''))
                            NoMeta s2))))"

definition createUser :: "env \<Rightarrow> signup_data \<Rightarrow> state \<Rightarrow> (js_error + js_object) \<times> state" where
  "createUser env d s =
     (case createUser_try env d s of
        (Inr newUser, s') \<Rightarrow> (Inr newUser, s')
      | (Inl e, s') \<Rightarrow>
          (Inl e, logger ERROR (''Create user error: '' @ error_to_string e) NoMeta s'))"

text \<open>
  The \<open>try\<close> block of \<open>authenticateUser\<close>. \<open>const [user] = rows\<close> takes the first row,
  \<open>undefined\<close> when there is none; \<open>const {password: _password, ...safeUser} = user\<close>
  copies every property but \<open>password\<close>.
\<close>

definition authenticateUser_try :: "env \<Rightarrow> signin_data \<Rightarrow> state \<Rightarrow> (js_error + js_object) \<times> state" where
  "authenticateUser_try env d s =
     (case db_select_by_email env (si_email d) 1 s of
        Inl e \<Rightarrow> (Inl e, s)
      | Inr [] \<Rightarrow>
          (Inl (new_Error ''invalid credentials''),
           logger INFO (''Authentication failed: user not found for email '' @ si_email d) NoMeta s)
      | Inr (user # rest) \<Rightarrow>
          (case comparePassword env (si_password d) (obj_get user ''password'') s of
             (Inl e, s1) \<Rightarrow> (Inl e, s1)
           | (Inr passwordMatches, s1) \<Rightarrow>
               if \<not> passwordMatches
               then (Inl (new_Error ''invalid credentials''),
                     logger INFO
                       (''Authentication failed: invalid password for email '' @ si_email d)
                       NoMeta s1)
               else
                 let safeUser = AList.delete ''password'' user
                 in (Inr safeUser,
                     logger INFO
                       (''User authenticated with id: '' @ js_to_string (obj_get safeUser ''id'')
                        @ '', email: '' @ js_to_string (obj_get safeUser ''email''))
                       NoMeta s1)))"

definition authenticateUser :: "env \<Rightarrow> signin_data \<Rightarrow> state \<Rightarrow> (js_error + js_object) \<times> state" where
  "authenticateUser env d s =
     (case authenticateUser_try env d s of
        (Inr safeUser, s') \<Rightarrow> (Inr safeUser, s')
      | (Inl e, s') \<Rightarrow>
          if err_message e = ''invalid credentials'' then (Inl e, s')
          else (Inl e, logger ERROR (''Authenticate user error: '' @ error_to_string e) NoMeta s'))"

section \<open>utils/format.js\<close>

text \<open>
  The body of \<open>formatValidator\<close> reads the identifier \<open>errors\<close>; the only binding in
  scope is the parameter \<open>schema\<close>. Where \<open>errors.issues.map\<close> is an array, the call
  \<open>errors.issues.map(...)\<close> applies a value that is not a function.
\<close>

definition formatValidator :: "env \<Rightarrow> json \<Rightarrow> js_error + json" where
  "formatValidator env schema =
     (case resolve [(''schema'', schema)] ''errors'' of
        Inl e \<Rightarrow> Inl e
      | Inr errors \<Rightarrow>
          if \<not> truthy errors \<or> \<not> truthy (get_prop errors ''issues'')
          then Inr (JStr ''validation failed'')
          else if isArray (get_prop (get_prop errors ''issues'') ''map'')
          then Inl (JsError ''TypeError'' ''errors.issues.map is not a function'')
          else Inr (JStr (JSON_stringify env errors)))"

section \<open>controllers/auth.controller.js\<close>

text \<open>
  The \<open>try\<close> block of \<open>signup\<close>. In the answer to a body that fails validation,
  \<open>res.status(400)\<close> runs first; the argument of \<open>.json(...)\<close>, which calls
  \<open>formatValidator\<close>, is evaluated after it.
\<close>

definition signup_try :: "env \<Rightarrow> request \<Rightarrow> state \<Rightarrow> (js_error + unit) \<times> state" where
  "signup_try env req s =
     (case signUpSchema env (req_body req) of
        Inl verror \<Rightarrow>
          (let s1 = res_set_status 400 s
           in case formatValidator env verror of
                Inl e \<Rightarrow> (Inl e, s1)
              | Inr details \<Rightarrow>
                  (Inr (), res_json (JObj [(''error'', JStr ''validation failed''),
                                           (''details'', details)]) s1))
      | Inr d \<Rightarrow>
          (case createUser env d s of
             (Inl e, s1) \<Rightarrow> (Inl e, s1)
           | (Inr user, s1) \<Rightarrow>
               (case jwt_sign env (JObj [(''id'', obj_get user ''id''),
                                         (''email'', obj_get user ''email''),
                                         (''role'', obj_get user ''role'')]) of
                  Inl e \<Rightarrow> (Inl e, s1)
                | Inr token \<Rightarrow>
                    let s2 = cookies_set env ''token'' token [] s1;
                        s3 = logger INFO
                               (''User signed up with name: '' @ sd_name d
                                @ '', email: '' @ sd_email d @ '', role: ''
                                @ (case sd_role d of None \<Rightarrow> ''undefined'' | Some r \<Rightarrow> r))
                               NoMeta s2
                    in (Inr (),
                        res_json (JObj [(''message'', JStr ''User signed up successfully''),
                                        (''user'', JObj [(''id'', obj_get user ''id''),
                                                         (''name'', obj_get user ''name''),
                                                         (''email'', obj_get user ''email''),
                                                         (''role'', obj_get user ''role'')])])
                          (res_set_status 201 s3)))))"

definition signup :: "env \<Rightarrow> request \<Rightarrow> state \<Rightarrow> state" where
  "signup env req s =
     (case signup_try env req s of
        (Inr u, s') \<Rightarrow> s'
      | (Inl error, s') \<Rightarrow>
          let s1 = logger ERROR ''Signup error:'' (ErrMeta error) s'
          in if err_message error = ''user already exists''
             then res_json (JObj [(''error'', JStr ''User already exists'')]) (res_set_status 409 s1)
             else call_next (Some error) s1)"

definition signin_try :: "env \<Rightarrow> request \<Rightarrow> state \<Rightarrow> (js_error + unit) \<times> state" where
  "signin_try env req s =
     (case signInSchema env (req_body req) of
        Inl verror \<Rightarrow>
          (let s1 = res_set_status 400 s
           in case formatValidator env verror of
                Inl e \<Rightarrow> (Inl e, s1)
              | Inr details \<Rightarrow>
                  (Inr (), res_json (JObj [(''error'', JStr ''validation failed''),
                                           (''details'', details)]) s1))
      | Inr d \<Rightarrow>
          (case authenticateUser env d s of
             (Inl e, s1) \<Rightarrow> (Inl e, s1)
           | (Inr user, s1) \<Rightarrow>
               (case jwt_sign env (JObj [(''id'', obj_get user ''id''),
                                         (''email'', obj_get user ''email''),
                                         (''role'', obj_get user ''role'')]) of
                  Inl e \<Rightarrow> (Inl e, s1)
                | Inr token \<Rightarrow>
                    let s2 = cookies_set env ''token'' token [] s1;
                        s3 = logger INFO
                               (''User signed in with email: '' @ si_email d
                                @ '', role: '' @ js_to_string (obj_get user ''role''))
                               NoMeta s2
                    in (Inr (),
                        res_json (JObj [(''message'', JStr ''User signed in successfully''),
                                        (''user'', JObj [(''id'', obj_get user ''id''),
                                                         (''name'', obj_get user ''name''),
                                                         (''email'', obj_get user ''email''),
                                                         (''role'', obj_get user ''role'')])])
                          (res_set_status 200 s3)))))"

definition signin :: "env \<Rightarrow> request \<Rightarrow> state \<Rightarrow> state" where
  "signin env req s =
     (case signin_try env req s of
        (Inr u, s') \<Rightarrow> s'
      | (Inl error, s') \<Rightarrow>
          let s1 = logger ERROR ''Signin error:'' (ErrMeta error) s'
          in if err_message error = ''invalid credentials''
             then res_json (JObj [(''error'', JStr ''Invalid email or password'')])
                    (res_set_status 401 s1)
             else call_next (Some error) s1)"

text \<open>Nothing in the \<open>try\<close> block of \<open>signout\<close> raises, so its handler never runs.\<close>

definition signout :: "env \<Rightarrow> request \<Rightarrow> state \<Rightarrow> state" where
  "signout env req s =
     (let s1 = cookies_clear env ''token'' [] s;
          s2 = logger INFO ''User signed out'' NoMeta s1
      in res_json (JObj [(''message'', JStr ''User signed out successfully'')])
           (res_set_status 200 s2))"

text \<open>
  A client that receives the response: a set-cookie stores the value under the cookie's
  name, a clear-cookie removes the cookie of that name.
\<close>

fun client_apply :: "cookie_op \<Rightarrow> (string \<rightharpoonup> string) \<Rightarrow> (string \<rightharpoonup> string)" where
  "client_apply (SetCookie name v opts) jar = jar(name \<mapsto> v)"
| "client_apply (ClearCookie name opts) jar = jar(name := None)"

definition client_receive :: "state \<Rightarrow> (string \<rightharpoonup> string) \<Rightarrow> (string \<rightharpoonup> string)" where
  "client_receive s jar = fold client_apply (res_cookies s) jar"

section \<open>middleware/security.middleware.js\<close>

text \<open>\<open>req.get('User-Agent')\<close>: \<open>undefined\<close> when the header is absent.\<close>

definition req_get_User_Agent :: "request \<Rightarrow> json" where
  "req_get_User_Agent req = (case req_user_agent req of None \<Rightarrow> JUndefined | Some ua \<Rightarrow> JStr ua)"

text \<open>
  \<open>req.user?.role || 'guest'\<close>: an absent and an empty role both give \<open>guest\<close>. The
  \<open>switch\<close> has no default case, so any other role leaves \<open>limit\<close> and \<open>message\<close>
  undefined. The rule is recorded when it is handed to the admission service; a
  rejection of \<open>client.protect\<close> is caught by the \<open>catch\<close> block.
\<close>

definition securityMiddleware :: "env \<Rightarrow> request \<Rightarrow> state \<Rightarrow> state" where
  "securityMiddleware env req s =
     (let role = (case req_user_role req of None \<Rightarrow> ''guest''
                  | Some r \<Rightarrow> if r = [] then ''guest'' else r);
          (limit, message) =
            (if role = ''admin''
               then (Some 20, JStr ''Admin rate limit exceeded(20 per min). slow down.'')
             else if role = ''user''
               then (Some 10, JStr ''User rate limit exceeded(10 per min). slow down.'')
             else if role = ''guest''
               then (Some 5, JStr ''Guest rate limit exceeded(5 per min). slow down.'')
             else (None, JUndefined));
          rule = \<lparr>sw_mode = ''LIVE'', sw_interval = ''1m'', sw_max = limit,
                  sw_name = role @ ''-rate-limit''\<rparr>;
          s0 = s\<lparr>aj_rules := aj_rules s @ [rule]\<rparr>
      in case protect env rule req of
           Inl error \<Rightarrow>
             res_json (JObj [(''error'', JStr ''Internal server error''),
                             (''message'', JStr ''An error occurred while processing your request.'')])
               (res_set_status 500
                 (logger CONSOLE_ERROR ''Security middleware error:'' (ErrMeta error) s0))
         | Inr decision \<Rightarrow>
             if isDenied decision \<and> isBot (dec_reason decision) then
               res_json (JObj [(''error'', JStr ''Access denied for bots''),
                               (''message'', JStr ''Your request has been identified as coming from a bot and has been blocked.'')])
                 (res_set_status 403
                   (logger WARN ''Bot request blocked''
                      (ObjMeta [(''ip'', JStr (req_ip req)),
                                (''userAgent'', req_get_User_Agent req),
                                (''path'', JStr (req_path req))]) s0))
             else if isDenied decision \<and> isShield (dec_reason decision) then
               res_json (JObj [(''error'', JStr ''Access denied for bots''),
                               (''message'', JStr ''Request blocked by Shield.'')])
                 (res_set_status 403
                   (logger WARN ''Shield request blocked''
                      (ObjMeta [(''ip'', JStr (req_ip req)),
                                (''userAgent'', req_get_User_Agent req),
                                (''path'', JStr (req_path req)),
                                (''method'', JStr (req_method req))]) s0))
             else if isDenied decision \<and> isRateLimit (dec_reason decision) then
               res_json (JObj [(''error'', JStr ''Rate limit exceeded''), (''message'', message)])
                 (res_set_status 429
                   (logger WARN ''Rate limit request blocked''
                      (ObjMeta [(''ip'', JStr (req_ip req)),
                                (''userAgent'', req_get_User_Agent req),
                                (''path'', JStr (req_path req)),
                                (''method'', JStr (req_method req))]) s0))
             else call_next None s0)"

text \<open>
  The stages of \<open>securityMiddleware\<close>, named for the proofs: the role, the \<open>switch\<close>,
  the rule, and the handling of what \<open>client.protect\<close> answered.
\<close>

definition gate_role :: "request \<Rightarrow> string" where
  "gate_role req =
     (case req_user_role req of None \<Rightarrow> ''guest'' | Some r \<Rightarrow> if r = [] then ''guest'' else r)"

definition gate_tier :: "string \<Rightarrow> nat option \<times> json" where
  "gate_tier role =
     (if role = ''admin''
        then (Some 20, JStr ''Admin rate limit exceeded(20 per min). slow down.'')
      else if role = ''user''
        then (Some 10, JStr ''User rate limit exceeded(10 per min). slow down.'')
      else if role = ''guest''
        then (Some 5, JStr ''Guest rate limit exceeded(5 per min). slow down.'')
      else (None, JUndefined))"

definition gate_rule :: "request \<Rightarrow> sliding_window" where
  "gate_rule req =
     \<lparr>sw_mode = ''LIVE'', sw_interval = ''1m'', sw_max = fst (gate_tier (gate_role req)),
      sw_name = gate_role req @ ''-rate-limit''\<rparr>"

definition gate_respond :: "request \<Rightarrow> json \<Rightarrow> js_error + decision \<Rightarrow> state \<Rightarrow> state" where
  "gate_respond req message outcome s0 =
     (case outcome of
           Inl error \<Rightarrow>
             res_json (JObj [(''error'', JStr ''Internal server error''),
                             (''message'', JStr ''An error occurred while processing your request.'')])
               (res_set_status 500
                 (logger CONSOLE_ERROR ''Security middleware error:'' (ErrMeta error) s0))
         | Inr decision \<Rightarrow>
             if isDenied decision \<and> isBot (dec_reason decision) then
               res_json (JObj [(''error'', JStr ''Access denied for bots''),
                               (''message'', JStr ''Your request has been identified as coming from a bot and has been blocked.'')])
                 (res_set_status 403
                   (logger WARN ''Bot request blocked''
                      (ObjMeta [(''ip'', JStr (req_ip req)),
                                (''userAgent'', req_get_User_Agent req),
                                (''path'', JStr (req_path req))]) s0))
             else if isDenied decision \<and> isShield (dec_reason decision) then
               res_json (JObj [(''error'', JStr ''Access denied for bots''),
                               (''message'', JStr ''Request blocked by Shield.'')])
                 (res_set_status 403
                   (logger WARN ''Shield request blocked''
                      (ObjMeta [(''ip'', JStr (req_ip req)),
                                (''userAgent'', req_get_User_Agent req),
                                (''path'', JStr (req_path req)),
                                (''method'', JStr (req_method req))]) s0))
             else if isDenied decision \<and> isRateLimit (dec_reason decision) then
               res_json (JObj [(''error'', JStr ''Rate limit exceeded''), (''message'', message)])
                 (res_set_status 429
                   (logger WARN ''Rate limit request blocked''
                      (ObjMeta [(''ip'', JStr (req_ip req)),
                                (''userAgent'', req_get_User_Agent req),
                                (''path'', JStr (req_path req)),
                                (''method'', JStr (req_method req))]) s0))
             else call_next None s0)"

text \<open>The rule the gate hands to the admission service for a request.\<close>

definition consulted_rule :: "env \<Rightarrow> request \<Rightarrow> state \<Rightarrow> sliding_window" where
  "consulted_rule env req s = last (aj_rules (securityMiddleware env req s))"

text \<open>
  The tiers as the specification tabulates them: role, requests per minute, and the
  message of the denial.
\<close>

definition spec_tiers :: "(string \<times> nat \<times> string) list" where
  "spec_tiers =
     [(''guest'', 5, ''Guest rate limit exceeded(5 per min). slow down.''),
      (''user'', 10, ''User rate limit exceeded(10 per min). slow down.''),
      (''admin'', 20, ''Admin rate limit exceeded(20 per min). slow down.'')]"

section \<open>A concrete deployment\<close>

text \<open>
  Collaborators, a request and a state on which the handlers can be run: a schema that
  asks for string fields, a hash that prefixes the password, and an admission service
  that answers by the request's path.
\<close>

definition demo_signUpSchema :: "json \<Rightarrow> json + signup_data" where
  "demo_signUpSchema b =
     (case (get_prop b ''name'', get_prop b ''email'', get_prop b ''password'') of
        (JStr n, JStr e, JStr p) \<Rightarrow>
          Inr \<lparr>sd_name = n, sd_email = e, sd_password = p,
               sd_role = (case get_prop b ''role'' of JStr r \<Rightarrow> Some r | _ \<Rightarrow> Some ''user'')\<rparr>
      | _ \<Rightarrow> Inl (JObj [(''issues'', JArr [JObj [(''message'', JStr ''Invalid input'')]])]))"

definition demo_signInSchema :: "json \<Rightarrow> json + signin_data" where
  "demo_signInSchema b =
     (case (get_prop b ''email'', get_prop b ''password'') of
        (JStr e, JStr p) \<Rightarrow> Inr \<lparr>si_email = e, si_password = p\<rparr>
      | _ \<Rightarrow> Inl (JObj [(''issues'', JArr [JObj [(''message'', JStr ''Invalid input'')]])]))"

definition demo_protect :: "sliding_window \<Rightarrow> request \<Rightarrow> js_error + decision" where
  "demo_protect rule req =
     (if req_path req = ''/bot'' then Inr \<lparr>dec_conclusion = DENY, dec_reason = BOT\<rparr>
      else if req_path req = ''/shield'' then Inr \<lparr>dec_conclusion = DENY, dec_reason = SHIELD\<rparr>
      else if req_path req = ''/flood'' then Inr \<lparr>dec_conclusion = DENY, dec_reason = RATE_LIMIT\<rparr>
      else if req_path req = ''/email'' then Inr \<lparr>dec_conclusion = DENY, dec_reason = EMAIL\<rparr>
      else if req_path req = ''/fault'' then Inl (new_Error ''fetch failed'')
      else Inr \<lparr>dec_conclusion = ALLOW, dec_reason = UNKNOWN\<rparr>)"

definition demo_env :: env where
  "demo_env =
     \<lparr>NODE_ENV = Some ''production'',
      bcrypt_hash = (\<lambda>p rounds. Inr (''hash:'' @ p)),
      bcrypt_compare = (\<lambda>p h. Inr (h = JStr (''hash:'' @ p))),
      jwt_sign = (\<lambda>payload. Inr (''jwt:'' @ js_to_string (get_prop payload ''email''))),
      signUpSchema = demo_signUpSchema,
      signInSchema = demo_signInSchema,
      db_fault = None,
      protect = demo_protect,
      JSON_stringify = js_to_string\<rparr>"

definition demo_request :: "json \<Rightarrow> string \<Rightarrow> request" where
  "demo_request b path =
     \<lparr>req_body = b, req_user_role = None, req_ip = ''10.0.0.1'',
      req_user_agent = Some ''curl/8'', req_path = path, req_method = ''POST'',
      req_cookies = []\<rparr>"

definition demo_state :: state where
  "demo_state =
     \<lparr>users = [\<lparr>u_id = 1, u_name = ''Al'', u_email = ''a@b.com'', u_password = ''hash:secret1'',
                 u_role = ''admin'', u_createdAt = 0, u_updatedAt = 0\<rparr>],
      next_id = 2, now = 7, logs = [], aj_rules = [],
      res_status = 200, res_body = None, res_cookies = [], next_called = NotCalled\<rparr>"

text \<open>The state of a server whose relation holds no row yet.\<close>

definition empty_state :: state where
  "empty_state =
     \<lparr>users = [], next_id = 1, now = 0, logs = [], aj_rules = [],
      res_status = 200, res_body = None, res_cookies = [], next_called = NotCalled\<rparr>"

definition al_signup_body :: json where
  "al_signup_body =
     JObj [(''name'', JStr ''Al''), (''email'', JStr ''a@b.com''), (''password'', JStr ''secret1''),
           (''role'', JStr ''admin'')]"

definition bo_signup_body :: json where
  "bo_signup_body =
     JObj [(''name'', JStr ''Bo''), (''email'', JStr ''bo@b.com''), (''password'', JStr ''hunter22'')]"

definition al_signin_body :: "string \<Rightarrow> json" where
  "al_signin_body password = JObj [(''email'', JStr ''a@b.com''), (''password'', JStr password)]"


section \<open>Reading the users relation\<close>

lemma select_first:
  "db_fault env = None \<Longrightarrow> List.find (\<lambda>u. u_email u = email) (users s) = Some u \<Longrightarrow>
   db_select_by_email env email (Suc 0) s = Inr [row_object u]"
proof -
  assume f: "db_fault env = None" and g: "List.find (\<lambda>u. u_email u = email) (users s) = Some u"
  have "take (Suc 0) (map row_object (filter P xs)) = [row_object u]" if "List.find P xs = Some u" for P xs
    using that by (induction xs) (auto split: if_splits)
  from this [OF g] f show ?thesis
    by (simp add: db_select_by_email_def)
qed

lemma select_absent:
  "db_fault env = None \<Longrightarrow> email \<notin> set (map u_email (users s)) \<Longrightarrow>
   db_select_by_email env email n s = Inr []"
  by (auto simp: db_select_by_email_def filter_empty_conv)

section \<open>Properties of signup\<close>

text \<open>
  C1. A signup whose body passes validation and whose email already has a row is
  answered with 409 and the body \<open>{error: 'User already exists'}\<close>. No row is
  inserted: the relation and its serial are as before. The duplicate is the condition
  \<open>user already exists\<close> raised by \<open>createUser\<close> and recognised by the controller,
  which answers itself and does not call \<open>next\<close>; no cookie is set.
\<close>

theorem signup_duplicate_email_conflict:
  assumes "signUpSchema env (req_body req) = Inr d"
    and "db_fault env = None"
    and "sd_email d \<in> set (map u_email (users s))"
  shows "res_status (signup env req s) = 409
       \<and> res_body (signup env req s) = Some (JObj [(''error'', JStr ''User already exists'')])
       \<and> users (signup env req s) = users s
       \<and> next_id (signup env req s) = next_id s
       \<and> res_cookies (signup env req s) = res_cookies s
       \<and> next_called (signup env req s) = next_called s
       \<and> fst (createUser env d s) = Inl (new_Error ''user already exists'')"
proof -
  have ne: "filter (\<lambda>u. u_email u = sd_email d) (users s) \<noteq> []"
    using assms(3) by (auto simp: filter_empty_conv)
  have ct: "createUser_try env d s = (Inl (new_Error ''user already exists''), s)"
    using assms(2) ne by (simp add: createUser_try_def db_select_by_email_def Let_def)
  have cu: "createUser env d s = (Inl (new_Error ''user already exists''),
      logger ERROR (''Create user error: '' @ error_to_string (new_Error ''user already exists'')) NoMeta s)"
    by (simp add: createUser_def ct)
  show ?thesis
    using assms(1)
    by (simp add: signup_def signup_try_def cu new_Error_def logger_def res_json_def res_set_status_def)
qed

text \<open>
  The theorem at the request of Al, whose email is in the relation.
\<close>

theorem signup_duplicate_email_conflict_witness:
  "signUpSchema demo_env (req_body (demo_request al_signup_body ''/sign-up'')) =
     Inr \<lparr>sd_name = ''Al'', sd_email = ''a@b.com'', sd_password = ''secret1'', sd_role = Some ''admin''\<rparr>
   \<and> res_status (signup demo_env (demo_request al_signup_body ''/sign-up'') demo_state) = 409
   \<and> users (signup demo_env (demo_request al_signup_body ''/sign-up'') demo_state) = users demo_state"
  using signup_duplicate_email_conflict [of demo_env "demo_request al_signup_body ''/sign-up''"
      "\<lparr>sd_name = ''Al'', sd_email = ''a@b.com'', sd_password = ''secret1'', sd_role = Some ''admin''\<rparr>"
      demo_state]
  by (simp add: demo_env_def demo_request_def demo_state_def demo_signUpSchema_def
      al_signup_body_def obj_get_def)

section \<open>Properties of signin\<close>





section \<open>Validation failures\<close>

lemma formatValidator_raises:
  "formatValidator env schema = Inl (JsError ''ReferenceError'' ''errors is not defined'')"
  by (simp add: formatValidator_def resolve_def)

lemma signup_invalid_body:
  "signUpSchema env (req_body req) = Inl verror \<Longrightarrow>
   signup env req s =
     call_next (Some (JsError ''ReferenceError'' ''errors is not defined''))
       (logger ERROR ''Signup error:'' (ErrMeta (JsError ''ReferenceError'' ''errors is not defined''))
         (res_set_status 400 s))"
  by (simp add: signup_def signup_try_def formatValidator_raises)

lemma signin_invalid_body:
  "signInSchema env (req_body req) = Inl verror \<Longrightarrow>
   signin env req s =
     call_next (Some (JsError ''ReferenceError'' ''errors is not defined''))
       (logger ERROR ''Signin error:'' (ErrMeta (JsError ''ReferenceError'' ''errors is not defined''))
         (res_set_status 400 s))"
  by (simp add: signin_def signin_try_def formatValidator_raises)

text \<open>
  C3. What the code does with a body that fails validation: \<open>formatValidator\<close>
  raises a \<open>ReferenceError\<close> while the argument of \<open>res.status(400).json(...)\<close> is
  evaluated, so both \<open>signup\<close> and \<open>signin\<close> send no body and hand the error to
  \<open>next\<close>. Here on the empty object as body.
\<close>

theorem invalid_body_forwarded_to_next:
  "signUpSchema demo_env (req_body (demo_request (JObj []) ''/sign-up'')) =
     Inl (JObj [(''issues'', JArr [JObj [(''message'', JStr ''Invalid input'')]])])
   \<and> next_called (signup demo_env (demo_request (JObj []) ''/sign-up'') demo_state) =
     Called (Some (JsError ''ReferenceError'' ''errors is not defined''))
   \<and> res_body (signup demo_env (demo_request (JObj []) ''/sign-up'') demo_state) = None
   \<and> signInSchema demo_env (req_body (demo_request (JObj []) ''/sign-in'')) =
     Inl (JObj [(''issues'', JArr [JObj [(''message'', JStr ''Invalid input'')]])])
   \<and> next_called (signin demo_env (demo_request (JObj []) ''/sign-in'') demo_state) =
     Called (Some (JsError ''ReferenceError'' ''errors is not defined''))
   \<and> res_body (signin demo_env (demo_request (JObj []) ''/sign-in'') demo_state) = None"
proof -
  have up: "signUpSchema demo_env (req_body (demo_request (JObj []) ''/sign-up'')) =
     Inl (JObj [(''issues'', JArr [JObj [(''message'', JStr ''Invalid input'')]])])"
    by (simp add: demo_env_def demo_request_def demo_signUpSchema_def obj_get_def)
  have inn: "signInSchema demo_env (req_body (demo_request (JObj []) ''/sign-in'')) =
     Inl (JObj [(''issues'', JArr [JObj [(''message'', JStr ''Invalid input'')]])])"
    by (simp add: demo_env_def demo_request_def demo_signInSchema_def obj_get_def)
  show ?thesis
    by (simp add: up inn signup_invalid_body [OF up] signin_invalid_body [OF inn]
        call_next_def logger_def res_set_status_def demo_state_def)
qed

section \<open>Successful signup and signin\<close>

lemma createUser_fresh:
  assumes "db_fault env = None"
    and "sd_email d \<notin> set (map u_email (users s))"
    and "bcrypt_hash env (sd_password d) 10 = Inr h"
    and "role = (case sd_role d of None \<Rightarrow> ''user'' | Some r \<Rightarrow> r)"
  shows "createUser env d s =
    (Inr [(''id'', JNum (int (next_id s))), (''name'', JStr (sd_name d)),
          (''email'', JStr (sd_email d)), (''role'', JStr role),
          (''created_at'', JNum (int (now s)))],
     logger INFO (''New user created with id: '' @ show_int (int (next_id s))
                  @ '', email: '' @ sd_email d) NoMeta
       (s\<lparr>users := users s @ [\<lparr>u_id = next_id s, u_name = sd_name d, u_email = sd_email d,
                                 u_password = h, u_role = role, u_createdAt = now s,
                                 u_updatedAt = now s\<rparr>],
          next_id := Suc (next_id s)\<rparr>))"
proof -
  have ins: "db_insert_user env (sd_name d) (sd_email d) h role s =
    (Inr [(''id'', JNum (int (next_id s))), (''name'', JStr (sd_name d)),
          (''email'', JStr (sd_email d)), (''role'', JStr role),
          (''created_at'', JNum (int (now s)))],
     s\<lparr>users := users s @ [\<lparr>u_id = next_id s, u_name = sd_name d, u_email = sd_email d,
                                 u_password = h, u_role = role, u_createdAt = now s,
                                 u_updatedAt = now s\<rparr>],
          next_id := Suc (next_id s)\<rparr>)"
    using assms(1,2) by (simp add: db_insert_user_def Let_def)
  have "createUser_try env d s =
    (Inr [(''id'', JNum (int (next_id s))), (''name'', JStr (sd_name d)),
          (''email'', JStr (sd_email d)), (''role'', JStr role),
          (''created_at'', JNum (int (now s)))],
     logger INFO (''New user created with id: '' @ show_int (int (next_id s))
                  @ '', email: '' @ sd_email d) NoMeta
       (s\<lparr>users := users s @ [\<lparr>u_id = next_id s, u_name = sd_name d, u_email = sd_email d,
                                 u_password = h, u_role = role, u_createdAt = now s,
                                 u_updatedAt = now s\<rparr>],
          next_id := Suc (next_id s)\<rparr>))"
    using assms(3)
    by (simp add: createUser_try_def select_absent [OF assms(1,2)] hashPassword_def
        assms(4) [symmetric] ins obj_get_def)
  then show ?thesis
    by (simp add: createUser_def)
qed

lemma authenticate_match:
  assumes "db_fault env = None"
    and "List.find (\<lambda>u. u_email u = si_email d) (users s) = Some u"
    and "bcrypt_compare env (si_password d) (JStr (u_password u)) = Inr True"
  shows "authenticateUser env d s =
    (Inr [(''id'', JNum (int (u_id u))), (''name'', JStr (u_name u)),
          (''email'', JStr (u_email u)), (''role'', JStr (u_role u)),
          (''createdAt'', JNum (int (u_createdAt u))),
          (''updatedAt'', JNum (int (u_updatedAt u)))],
     logger INFO (''User authenticated with id: '' @ show_int (int (u_id u))
                  @ '', email: '' @ u_email u) NoMeta s)"
  using assms(3)
  by (simp add: authenticateUser_def authenticateUser_try_def select_first [OF assms(1,2)]
      row_object_def obj_get_def comparePassword_def AList.delete_eq)

lemma signup_success_response:
  assumes "db_fault env = None"
    and "signUpSchema env (req_body req) = Inr d"
    and "sd_email d \<notin> set (map u_email (users s))"
    and "bcrypt_hash env (sd_password d) 10 = Inr h"
    and "role = (case sd_role d of None \<Rightarrow> ''user'' | Some r \<Rightarrow> r)"
    and "jwt_sign env (JObj [(''id'', JNum (int (next_id s))), (''email'', JStr (sd_email d)),
                             (''role'', JStr role)]) = Inr token"
  shows "res_status (signup env req s) = 201
       \<and> res_body (signup env req s) =
           Some (JObj [(''message'', JStr ''User signed up successfully''),
                       (''user'', JObj [(''id'', JNum (int (next_id s))),
                                        (''name'', JStr (sd_name d)),
                                        (''email'', JStr (sd_email d)),
                                        (''role'', JStr role)])])"
  using assms(2,6)
  by (simp add: signup_def signup_try_def createUser_fresh [OF assms(1,3,4,5)] obj_get_def
      res_json_def res_set_status_def logger_def cookies_set_def res_cookie_def)

lemma signin_success_response:
  assumes "db_fault env = None"
    and "signInSchema env (req_body req) = Inr d"
    and "List.find (\<lambda>u. u_email u = si_email d) (users s) = Some u"
    and "bcrypt_compare env (si_password d) (JStr (u_password u)) = Inr True"
    and "jwt_sign env (JObj [(''id'', JNum (int (u_id u))), (''email'', JStr (u_email u)),
                             (''role'', JStr (u_role u))]) = Inr token"
  shows "res_status (signin env req s) = 200
       \<and> res_body (signin env req s) =
           Some (JObj [(''message'', JStr ''User signed in successfully''),
                       (''user'', JObj [(''id'', JNum (int (u_id u))),
                                        (''name'', JStr (u_name u)),
                                        (''email'', JStr (u_email u)),
                                        (''role'', JStr (u_role u))])])
       \<and> fst (authenticateUser env d s) =
           Inr [(''id'', JNum (int (u_id u))), (''name'', JStr (u_name u)),
                (''email'', JStr (u_email u)), (''role'', JStr (u_role u)),
                (''createdAt'', JNum (int (u_createdAt u))),
                (''updatedAt'', JNum (int (u_updatedAt u)))]"
  using assms(2,5)
  by (simp add: signin_def signin_try_def authenticate_match [OF assms(1,3,4)] obj_get_def
      res_json_def res_set_status_def logger_def cookies_set_def res_cookie_def)

text \<open>
  C4. Two statements, each on its own conditions. Every successful signup (the body
  passes validation, the email has no row, hashing, insertion and signing succeed) is
  answered with 201 and a user object with exactly the fields id, name, email and role;
  this includes the first signup on an empty relation. Every successful signin (the body
  passes validation, the email has a row, the password matches, signing succeeds) is
  answered with 200 and a user object of the same shape. Neither body has a password
  field, and the user that \<open>authenticateUser\<close> returns is the row without its
  \<open>password\<close> property.
\<close>

theorem success_responses_public_user_only:
  "(db_fault env = None
      \<and> signUpSchema env (req_body req) = Inr d
      \<and> sd_email d \<notin> set (map u_email (users s))
      \<and> bcrypt_hash env (sd_password d) 10 = Inr h
      \<and> role = (case sd_role d of None \<Rightarrow> ''user'' | Some r \<Rightarrow> r)
      \<and> jwt_sign env (JObj [(''id'', JNum (int (next_id s))), (''email'', JStr (sd_email d)),
                             (''role'', JStr role)]) = Inr token
    \<longrightarrow> res_status (signup env req s) = 201
      \<and> res_body (signup env req s) =
          Some (JObj [(''message'', JStr ''User signed up successfully''),
                      (''user'', JObj [(''id'', JNum (int (next_id s))),
                                       (''name'', JStr (sd_name d)),
                                       (''email'', JStr (sd_email d)),
                                       (''role'', JStr role)])]))
   \<and> (db_fault env' = None
      \<and> signInSchema env' (req_body req') = Inr d'
      \<and> List.find (\<lambda>u. u_email u = si_email d') (users s') = Some u
      \<and> bcrypt_compare env' (si_password d') (JStr (u_password u)) = Inr True
      \<and> jwt_sign env' (JObj [(''id'', JNum (int (u_id u))), (''email'', JStr (u_email u)),
                              (''role'', JStr (u_role u))]) = Inr token'
    \<longrightarrow> res_status (signin env' req' s') = 200
      \<and> res_body (signin env' req' s') =
          Some (JObj [(''message'', JStr ''User signed in successfully''),
                      (''user'', JObj [(''id'', JNum (int (u_id u))),
                                       (''name'', JStr (u_name u)),
                                       (''email'', JStr (u_email u)),
                                       (''role'', JStr (u_role u))])])
      \<and> fst (authenticateUser env' d' s') =
          Inr [(''id'', JNum (int (u_id u))), (''name'', JStr (u_name u)),
               (''email'', JStr (u_email u)), (''role'', JStr (u_role u)),
               (''createdAt'', JNum (int (u_createdAt u))),
               (''updatedAt'', JNum (int (u_updatedAt u)))])"
  using signup_success_response [of env req d s h role token]
    signin_success_response [of env' req' d' s' u token']
  by blast

text \<open>
  The theorem at the first signup on an empty relation (Bo) and at the signin of Al on
  the relation that holds Al's row.
\<close>

theorem success_responses_public_user_only_witness:
  "users empty_state = []
   \<and> res_status (signup demo_env (demo_request bo_signup_body ''/sign-up'') empty_state) = 201
   \<and> res_body (signup demo_env (demo_request bo_signup_body ''/sign-up'') empty_state) =
     Some (JObj [(''message'', JStr ''User signed up successfully''),
                 (''user'', JObj [(''id'', JNum 1), (''name'', JStr ''Bo''),
                                  (''email'', JStr ''bo@b.com''), (''role'', JStr ''user'')])])
   \<and> res_status (signin demo_env (demo_request (al_signin_body ''secret1'') ''/sign-in'') demo_state) = 200
   \<and> res_body (signin demo_env (demo_request (al_signin_body ''secret1'') ''/sign-in'') demo_state) =
     Some (JObj [(''message'', JStr ''User signed in successfully''),
                 (''user'', JObj [(''id'', JNum 1), (''name'', JStr ''Al''),
                                  (''email'', JStr ''a@b.com''), (''role'', JStr ''admin'')])])"
  using success_responses_public_user_only [where env = demo_env
      and req = "demo_request bo_signup_body ''/sign-up''"
      and d = "\<lparr>sd_name = ''Bo'', sd_email = ''bo@b.com'', sd_password = ''hunter22'',
                 sd_role = Some ''user''\<rparr>"
      and s = empty_state and h = "''hash:hunter22''" and role = "''user''"
      and token = "''jwt:bo@b.com''"
      and env' = demo_env
      and req' = "demo_request (al_signin_body ''secret1'') ''/sign-in''"
      and d' = "\<lparr>si_email = ''a@b.com'', si_password = ''secret1''\<rparr>"
      and s' = demo_state and u = "hd (users demo_state)" and token' = "''jwt:a@b.com''"]
  by (simp add: demo_env_def demo_request_def demo_state_def empty_state_def demo_signUpSchema_def
      demo_signInSchema_def bo_signup_body_def al_signin_body_def obj_get_def)

section \<open>Properties of the admission gate\<close>

lemma securityMiddleware_staged:
  "securityMiddleware env req s =
     gate_respond req (snd (gate_tier (gate_role req))) (protect env (gate_rule req) req)
       (s\<lparr>aj_rules := aj_rules s @ [gate_rule req]\<rparr>)"
  unfolding securityMiddleware_def gate_respond_def gate_rule_def Let_def case_prod_beta
    gate_tier_def [symmetric] gate_role_def [symmetric]
  by (rule refl)

lemma aj_rules_gate_respond: "aj_rules (gate_respond req m outcome s0) = aj_rules s0"
  by (simp add: gate_respond_def res_json_def res_set_status_def logger_def call_next_def
      split: sum.splits)

lemma consulted_rule_eq: "consulted_rule env req s = gate_rule req"
  by (simp add: consulted_rule_def securityMiddleware_staged aj_rules_gate_respond)


lemma gate_run:
  "protect env (consulted_rule env req s) req = outcome \<Longrightarrow>
   securityMiddleware env req s =
     gate_respond req (snd (gate_tier (gate_role req))) outcome
       (s\<lparr>aj_rules := aj_rules s @ [gate_rule req]\<rparr>)"
  by (simp add: consulted_rule_eq securityMiddleware_staged)

text \<open>
  C5. For a request whose role is one of the tabulated ones (\<open>guest\<close> also when
  the role is absent or empty), the rule handed to the admission service is a one-minute
  sliding window named \<open>{role}-rate-limit\<close> with the maximum of the role: 5 for guest,
  10 for user, 20 for admin. A denial classified as rate limit is answered with 429 and
  the message of the role, and \<open>next\<close> is not called.
\<close>

theorem rate_limit_tier_by_role:
  assumes "(r, n, msg) \<in> set spec_tiers"
    and "req_user_role req = Some r
         \<or> (r = ''guest'' \<and> (req_user_role req = None \<or> req_user_role req = Some []))"
  shows "consulted_rule env req s =
           \<lparr>sw_mode = ''LIVE'', sw_interval = ''1m'', sw_max = Some n,
            sw_name = r @ ''-rate-limit''\<rparr>
       \<and> (protect env (consulted_rule env req s) req = Inr d \<and> isDenied d
            \<and> isRateLimit (dec_reason d) \<longrightarrow>
          res_status (securityMiddleware env req s) = 429
          \<and> res_body (securityMiddleware env req s) =
              Some (JObj [(''error'', JStr ''Rate limit exceeded''), (''message'', JStr msg)])
          \<and> next_called (securityMiddleware env req s) = next_called s)"
proof -
  have role: "gate_role req = r"
    using assms by (auto simp: gate_role_def spec_tiers_def)
  have tier: "gate_tier r = (Some n, JStr msg)"
    using assms(1) by (auto simp: gate_tier_def spec_tiers_def)
  have rule: "consulted_rule env req s =
           \<lparr>sw_mode = ''LIVE'', sw_interval = ''1m'', sw_max = Some n,
            sw_name = r @ ''-rate-limit''\<rparr>"
    by (simp add: consulted_rule_eq gate_rule_def role tier)
  have resp: "res_status (securityMiddleware env req s) = 429
          \<and> res_body (securityMiddleware env req s) =
              Some (JObj [(''error'', JStr ''Rate limit exceeded''), (''message'', JStr msg)])
          \<and> next_called (securityMiddleware env req s) = next_called s"
    if "protect env (consulted_rule env req s) req = Inr d" "isDenied d" "isRateLimit (dec_reason d)"
    using that(2,3)
    by (simp add: gate_run [OF that(1)] role tier gate_respond_def isRateLimit_def isBot_def
        isShield_def res_json_def res_set_status_def logger_def)
  from rule resp show ?thesis by blast
qed

text \<open>
  The theorem at a guest request that the service denies for its rate.
\<close>

theorem rate_limit_tier_by_role_witness:
  "(''guest'', 5, ''Guest rate limit exceeded(5 per min). slow down.'') \<in> set spec_tiers
   \<and> consulted_rule demo_env (demo_request JUndefined ''/flood'') demo_state =
       \<lparr>sw_mode = ''LIVE'', sw_interval = ''1m'', sw_max = Some 5, sw_name = ''guest-rate-limit''\<rparr>
   \<and> res_status (securityMiddleware demo_env (demo_request JUndefined ''/flood'') demo_state) = 429"
proof -
  have t: "(''guest'', 5, ''Guest rate limit exceeded(5 per min). slow down.'') \<in> set spec_tiers"
    by (simp add: spec_tiers_def)
  have r: "req_user_role (demo_request JUndefined ''/flood'') = Some ''guest''
         \<or> (''guest'' = ''guest'' \<and> (req_user_role (demo_request JUndefined ''/flood'') = None
              \<or> req_user_role (demo_request JUndefined ''/flood'') = Some []))"
    by (simp add: demo_request_def)
  have p: "protect demo_env rule (demo_request JUndefined ''/flood'') =
      Inr \<lparr>dec_conclusion = DENY, dec_reason = RATE_LIMIT\<rparr>" for rule
    by (simp add: demo_env_def demo_protect_def demo_request_def)
  show ?thesis
    using t rate_limit_tier_by_role [OF t r, of demo_env demo_state
        "\<lparr>dec_conclusion = DENY, dec_reason = RATE_LIMIT\<rparr>"]
    by (simp add: p isDenied_def isRateLimit_def)
qed

text \<open>
  C6, as the code has it. A denial classified as shield is answered with 403 and the
  message \<open>Request blocked by Shield.\<close>, and logged with ip, user-agent, path and
  method: one field more than a denial classified as bot, which is logged with ip,
  user-agent and path. \<open>next\<close> is not called.
\<close>

theorem shield_denial_logs_method_too:
  assumes "protect env (consulted_rule env req s) req = Inr d"
    and "isDenied d" and "isShield (dec_reason d)"
  shows "res_status (securityMiddleware env req s) = 403
       \<and> res_body (securityMiddleware env req s) =
           Some (JObj [(''error'', JStr ''Access denied for bots''),
                       (''message'', JStr ''Request blocked by Shield.'')])
       \<and> logs (securityMiddleware env req s) =
           logs s @ [LogEntry WARN ''Shield request blocked''
                       (ObjMeta [(''ip'', JStr (req_ip req)),
                                 (''userAgent'', req_get_User_Agent req),
                                 (''path'', JStr (req_path req)),
                                 (''method'', JStr (req_method req))])]
       \<and> next_called (securityMiddleware env req s) = next_called s"
  using assms(2,3)
  by (simp add: gate_run [OF assms(1)] gate_respond_def isBot_def isShield_def
      res_json_def res_set_status_def logger_def)

text \<open>
  The theorem at a request that the service denies by its shield.
\<close>

theorem shield_denial_logs_method_too_witness:
  "res_status (securityMiddleware demo_env (demo_request JUndefined ''/shield'') demo_state) = 403
   \<and> logs (securityMiddleware demo_env (demo_request JUndefined ''/shield'') demo_state) =
       [LogEntry WARN ''Shield request blocked''
          (ObjMeta [(''ip'', JStr ''10.0.0.1''), (''userAgent'', JStr ''curl/8''),
                    (''path'', JStr ''/shield''), (''method'', JStr ''POST'')])]"
proof -
  have p: "protect demo_env rule (demo_request JUndefined ''/shield'') =
      Inr \<lparr>dec_conclusion = DENY, dec_reason = SHIELD\<rparr>" for rule
    by (simp add: demo_env_def demo_protect_def demo_request_def)
  show ?thesis
    using shield_denial_logs_method_too [OF p, of demo_state]
    by (simp add: isDenied_def isShield_def demo_state_def demo_request_def req_get_User_Agent_def)
qed

text \<open>
  C6 as stated fails: the context logged for a shield denial is not the three fields
  ip, user-agent and path that a bot denial logs.
\<close>

theorem shield_log_differs_from_bot_log:
  "protect demo_env
     (consulted_rule demo_env (demo_request JUndefined ''/shield'') demo_state)
     (demo_request JUndefined ''/shield'') = Inr \<lparr>dec_conclusion = DENY, dec_reason = SHIELD\<rparr>
   \<and> entry_meta (last (logs (securityMiddleware demo_env (demo_request JUndefined ''/shield'') demo_state)))
     \<noteq> ObjMeta [(''ip'', JStr ''10.0.0.1''), (''userAgent'', JStr ''curl/8''),
                 (''path'', JStr ''/shield'')]
   \<and> entry_meta (last (logs (securityMiddleware demo_env (demo_request JUndefined ''/bot'') demo_state)))
     = ObjMeta [(''ip'', JStr ''10.0.0.1''), (''userAgent'', JStr ''curl/8''),
                (''path'', JStr ''/bot'')]"
proof -
  have p: "protect demo_env rule (demo_request JUndefined ''/shield'') =
      Inr \<lparr>dec_conclusion = DENY, dec_reason = SHIELD\<rparr>" for rule
    by (simp add: demo_env_def demo_protect_def demo_request_def)
  have q: "protect demo_env rule (demo_request JUndefined ''/bot'') =
      Inr \<lparr>dec_conclusion = DENY, dec_reason = BOT\<rparr>" for rule
    by (simp add: demo_env_def demo_protect_def demo_request_def)
  have "logs (securityMiddleware demo_env (demo_request JUndefined ''/shield'') demo_state) =
      [LogEntry WARN ''Shield request blocked''
         (ObjMeta [(''ip'', JStr ''10.0.0.1''), (''userAgent'', JStr ''curl/8''),
                   (''path'', JStr ''/shield''), (''method'', JStr ''POST'')])]"
    by (subst gate_run [OF p])
      (simp add: gate_respond_def isDenied_def isBot_def isShield_def
        res_json_def res_set_status_def logger_def demo_request_def demo_state_def
        req_get_User_Agent_def)
  moreover have "logs (securityMiddleware demo_env (demo_request JUndefined ''/bot'') demo_state) =
      [LogEntry WARN ''Bot request blocked''
         (ObjMeta [(''ip'', JStr ''10.0.0.1''), (''userAgent'', JStr ''curl/8''),
                   (''path'', JStr ''/bot'')])]"
    by (subst gate_run [OF q])
      (simp add: gate_respond_def isDenied_def isBot_def
        res_json_def res_set_status_def logger_def demo_request_def demo_state_def
        req_get_User_Agent_def)
  ultimately show ?thesis by (simp add: p)
qed

text \<open>
  C7. When \<open>client.protect\<close> rejects, the gate answers 500, writes the fault to the
  console and does not call \<open>next\<close>.
\<close>

theorem gate_fault_fails_closed:
  assumes "protect env (consulted_rule env req s) req = Inl e"
  shows "res_status (securityMiddleware env req s) = 500
       \<and> res_body (securityMiddleware env req s) =
           Some (JObj [(''error'', JStr ''Internal server error''),
                       (''message'', JStr ''An error occurred while processing your request.'')])
       \<and> logs (securityMiddleware env req s) =
           logs s @ [LogEntry CONSOLE_ERROR ''Security middleware error:'' (ErrMeta e)]
       \<and> next_called (securityMiddleware env req s) = next_called s"
  by (simp add: gate_run [OF assms] gate_respond_def res_json_def res_set_status_def logger_def)

text \<open>
  The theorem at a request on which the service fails.
\<close>

theorem gate_fault_fails_closed_witness:
  "res_status (securityMiddleware demo_env (demo_request JUndefined ''/fault'') demo_state) = 500
   \<and> next_called (securityMiddleware demo_env (demo_request JUndefined ''/fault'') demo_state)
       = NotCalled"
proof -
  have p: "protect demo_env rule (demo_request JUndefined ''/fault'') = Inl (new_Error ''fetch failed'')"
    for rule
    by (simp add: demo_env_def demo_protect_def demo_request_def)
  show ?thesis
    using gate_fault_fails_closed [OF p, of demo_state]
    by (simp add: demo_state_def)
qed

text \<open>
  C10. A denial whose reason is none of bot, shield and rate limit is passed on: the
  gate calls \<open>next()\<close>, sends nothing and logs nothing.
\<close>

theorem unrecognised_denial_passes:
  assumes "protect env (consulted_rule env req s) req = Inr d"
    and "isDenied d"
    and "\<not> isBot (dec_reason d)" and "\<not> isShield (dec_reason d)"
    and "\<not> isRateLimit (dec_reason d)"
  shows "next_called (securityMiddleware env req s) = Called None
       \<and> res_status (securityMiddleware env req s) = res_status s
       \<and> res_body (securityMiddleware env req s) = res_body s
       \<and> res_cookies (securityMiddleware env req s) = res_cookies s
       \<and> logs (securityMiddleware env req s) = logs s"
  using assms(2-5)
  by (simp add: gate_run [OF assms(1)] gate_respond_def call_next_def)

text \<open>
  The theorem at a request denied for its email address.
\<close>

theorem unrecognised_denial_passes_witness:
  "isDenied \<lparr>dec_conclusion = DENY, dec_reason = EMAIL\<rparr>
   \<and> next_called (securityMiddleware demo_env (demo_request JUndefined ''/email'') demo_state)
       = Called None
   \<and> res_body (securityMiddleware demo_env (demo_request JUndefined ''/email'') demo_state) = None"
proof -
  have p: "protect demo_env rule (demo_request JUndefined ''/email'') =
      Inr \<lparr>dec_conclusion = DENY, dec_reason = EMAIL\<rparr>" for rule
    by (simp add: demo_env_def demo_protect_def demo_request_def)
  show ?thesis
    using unrecognised_denial_passes [OF p, of demo_state]
    by (simp add: isDenied_def isBot_def isShield_def isRateLimit_def demo_state_def)
qed

section \<open>Properties of signout\<close>

text \<open>
  C9. Whatever the request carries, \<open>signout\<close> clears the cookie \<open>token\<close> with
  the default attributes and answers 200 without calling \<open>next\<close>. A second signout
  right after the first is answered with 200 as well, and after one as after two the
  client holds no cookie \<open>token\<close>.
\<close>

theorem signout_idempotent:
  "res_status (signout env req s) = 200
   \<and> res_body (signout env req s) = Some (JObj [(''message'', JStr ''User signed out successfully'')])
   \<and> res_cookies (signout env req s) = res_cookies s @ [ClearCookie ''token'' (cookies_getOptions env)]
   \<and> next_called (signout env req s) = next_called s
   \<and> res_status (signout env req' (new_exchange (signout env req s))) = 200
   \<and> client_receive (signout env req s) jar ''token'' = None
   \<and> client_receive (signout env req' (new_exchange (signout env req s)))
        (client_receive (signout env req s) jar) ''token'' = None"
  by (simp add: signout_def cookies_clear_def res_clearCookie_def spread_def logger_def
      res_json_def res_set_status_def new_exchange_def client_receive_def)

section \<open>Properties of the cookie manager\<close>

lemma map_of_spread: "map_of (spread a b) = map_of a ++ map_of (rev b)"
  unfolding spread_def
proof (induction b arbitrary: a)
  case Nil
  show ?case by simp
next
  case (Cons kv b)
  obtain k v where kv: "kv = (k, v)" by (cases kv)
  have "map_of (fold (\<lambda>(k, v). AList.update k v) b (AList.update k v a))
        = map_of (AList.update k v a) ++ map_of (rev b)"
    by (rule Cons.IH)
  also have "\<dots> = (map_of a ++ [k \<mapsto> v]) ++ map_of (rev b)"
    by (simp add: update_conv')
  finally show ?case
    by (simp add: kv)
qed

lemma spread_empty: "spread a [] = a"
  by (simp add: spread_def)

text \<open>
  C8. Without per-call options, \<open>cookies.set\<close> and \<open>cookies.clear\<close> both use
  \<open>httpOnly = true\<close>, \<open>secure\<close> exactly in production mode, \<open>sameSite = Lax\<close> and a
  max age of 15 minutes (900000 ms). With per-call options, every option given
  overrides the default of the same name, and the attributes of the set and of the
  clear operation are the same object.
\<close>

theorem cookies_set_clear_same_attributes:
  "res_cookies (cookies_set env name v [] s) =
     res_cookies s @ [SetCookie name v
       [(''httpOnly'', JBool True), (''secure'', JBool (NODE_ENV env = Some ''production'')),
        (''sameSite'', JStr ''Lax''), (''maxAge'', JNum 900000)]]
   \<and> res_cookies (cookies_clear env name [] s) =
     res_cookies s @ [ClearCookie name
       [(''httpOnly'', JBool True), (''secure'', JBool (NODE_ENV env = Some ''production'')),
        (''sameSite'', JStr ''Lax''), (''maxAge'', JNum 900000)]]
   \<and> cookie_attributes (last (res_cookies (cookies_set env name v options s))) =
     cookie_attributes (last (res_cookies (cookies_clear env name options s')))
   \<and> map_of (cookie_attributes (last (res_cookies (cookies_set env name v options s)))) =
     map_of (cookies_getOptions env) ++ map_of (rev options)"
  by (simp add: cookies_set_def cookies_clear_def res_cookie_def res_clearCookie_def
      spread_empty map_of_spread cookies_getOptions_def)

end
